theory Spec2Isabelle
  imports Complex_Main "HOL-Library.Code_Target_Nat"
begin

section \<open>Python text\<close>

text \<open>
  A Python \<open>str\<close> is the list of its code points. A text written in Basic Latin is given
  as an Isabelle string and turned into code points by \<open>ascii\<close>.
\<close>

type_synonym str = "nat list"

definition ascii :: "string \<Rightarrow> str" where
  "ascii s = map of_char s"

text \<open>
  What Python knows of the characters comes from the Unicode tables of the interpreter.
  They are a parameter of the model: \<open>isspace\<close> is \<open>str.isspace\<close> on one character (the
  characters \<open>str.strip\<close> removes and \<open>\s\<close> matches), \<open>decimal\<close> is the value of a decimal
  digit (the characters \<open>int\<close> reads as digits), \<open>isword\<close> says what \<open>\w\<close> matches, and
  \<open>lower\<close> is \<open>str.lower\<close>.
\<close>

record tables =
  isspace :: "nat \<Rightarrow> bool"
  decimal :: "nat \<Rightarrow> nat option"
  isword :: "nat \<Rightarrow> bool"
  lower :: "str \<Rightarrow> str"

text \<open>The letters of \<open>[a-zA-Z]\<close>.\<close>

definition is_ascii_letter :: "nat \<Rightarrow> bool" where
  "is_ascii_letter c = ((65 \<le> c \<and> c \<le> 90) \<or> (97 \<le> c \<and> c \<le> 122))"

text \<open>\<open>str.strip()\<close>: the characters of \<open>isspace\<close> are dropped at both ends.\<close>

definition strip :: "tables \<Rightarrow> str \<Rightarrow> str" where
  "strip T s = rev (dropWhile (isspace T) (rev (dropWhile (isspace T) s)))"

fun starts_with :: "str \<Rightarrow> str \<Rightarrow> bool" where
  "starts_with s [] = True"
| "starts_with [] (p # ps) = False"
| "starts_with (c # cs) (p # ps) = (c = p \<and> starts_with cs ps)"

text \<open>\<open>needle in haystack\<close> on strings.\<close>

fun py_in :: "str \<Rightarrow> str \<Rightarrow> bool" where
  "py_in needle [] = (needle = [])"
| "py_in needle (c # cs) = (starts_with (c # cs) needle \<or> py_in needle cs)"

text \<open>
  \<open>int(s)\<close> on a string. Whitespace is dropped at both ends; here the four separators
  U+001C to U+001F do not count as whitespace. One sign may follow. Then come decimal digits
  of any script, where single underscores may separate digits. More than 4300 digits are
  refused. \<open>None\<close> stands for \<open>ValueError\<close>.
\<close>

definition int_space :: "tables \<Rightarrow> nat \<Rightarrow> bool" where
  "int_space T c = (isspace T c \<and> \<not> (28 \<le> c \<and> c \<le> 31))"

fun digit_values :: "tables \<Rightarrow> str \<Rightarrow> nat list option" where
  "digit_values T [] = None"
| "digit_values T [c] = map_option (\<lambda>v. [v]) (decimal T c)"
| "digit_values T (c # d # ds) =
     (case decimal T c of
        None \<Rightarrow> None
      | Some v \<Rightarrow>
          if d = 95 then map_option ((#) v) (digit_values T ds)
          else map_option ((#) v) (digit_values T (d # ds)))"

definition parse_unsigned :: "tables \<Rightarrow> str \<Rightarrow> nat option" where
  "parse_unsigned T s =
     (case digit_values T s of
        None \<Rightarrow> None
      | Some vs \<Rightarrow>
          if 4300 < length vs then None else Some (foldl (\<lambda>acc v. acc * 10 + v) 0 vs))"

definition py_int :: "tables \<Rightarrow> str \<Rightarrow> int option" where
  "py_int T s =
     (case rev (dropWhile (int_space T) (rev (dropWhile (int_space T) s))) of
        [] \<Rightarrow> None
      | c # cs \<Rightarrow>
          if c = 45 then map_option (\<lambda>n. - int n) (parse_unsigned T cs)
          else if c = 43 then map_option int (parse_unsigned T cs)
          else map_option int (parse_unsigned T (c # cs)))"


section \<open>Data model (skills/base.py)\<close>

record SkillMetadata =
  name :: str
  description :: str
  category :: "str option"
  tags :: "str list option"
  author :: "str option"
  version :: "str option"

text \<open>A conversation is a list of messages, each a role and a content.\<close>

type_synonym message = "str \<times> str"

record SkillContext =
  user_message :: str
  conversation_history :: "message list"
  variables :: "(str \<times> str) list"

record SkillResult =
  success :: bool
  content :: str
  result_metadata :: "(str \<times> str) list option"
  error :: "str option"

text \<open>A call either raises an exception, kept as its message, or returns a value.\<close>

datatype 'a outcome = Raises str | Returns 'a

text \<open>
  The class of a skill object decides which \<open>execute\<close> runs: that of the generic
  \<open>DynamicPythonSkill\<close>, that of the bundled \<open>CalculatorSkill\<close>, or that of any other
  subclass of \<open>BaseSkill\<close> found in a directory's \<open>skill.py\<close>, whose code is not part of
  the repository.
\<close>

datatype handler = Dynamic | Calculator | Native

text \<open>
  A skill object: its parsed metadata, its reference documents, the text of its
  \<open>SKILL.md\<close> (what \<open>get_full_content\<close> reads) and its class.
\<close>

record BaseSkill =
  metadata :: SkillMetadata
  references :: "(str \<times> str) list"
  skill_md :: str
  handler :: handler

definition get_full_content :: "BaseSkill \<Rightarrow> str" where
  "get_full_content skill = skill_md skill"


section \<open>The registry (skills/loader.py)\<close>

text \<open>
  \<open>SkillLoader._skills\<close> is a Python \<open>dict\<close>: keys are unique and iteration follows the order
  in which keys were first inserted. Assigning to a key that is present replaces the value
  and keeps the key's position.
\<close>

type_synonym registry = "(str \<times> BaseSkill) list"

fun dict_set :: "('k \<times> 'v) list \<Rightarrow> 'k \<Rightarrow> 'v \<Rightarrow> ('k \<times> 'v) list" where
  "dict_set [] k v = [(k, v)]"
| "dict_set ((k', v') # rest) k v =
     (if k' = k then (k, v) # rest else (k', v') # dict_set rest k v)"

text \<open>
  One entry of the skills directory, as \<open>_load_all\<close> sees it: its name, whether it is a
  directory, whether it holds \<open>SKILL.md\<close> and \<open>skill.py\<close>, what \<open>_load_python_skill\<close>
  returns for it (\<open>None\<close> when the import fails or no skill class is found) and what
  constructing \<open>DynamicPythonSkill\<close> on it gives.
\<close>

record dir_entry =
  entry_name :: str
  is_dir :: bool
  has_skill_md :: bool
  has_skill_py :: bool
  python_skill :: "BaseSkill option"
  dynamic_skill :: "BaseSkill outcome"

text \<open>
  The body of the loop of \<open>_load_all\<close> on one entry: the table afterwards, and the
  exception when constructing the generic skill raised.
\<close>

definition load_entry :: "dir_entry \<Rightarrow> registry \<Rightarrow> registry \<times> str option" where
  "load_entry e skills =
     (if \<not> is_dir e then (skills, None)
      else if starts_with (entry_name e) (ascii ''_'') \<or> starts_with (entry_name e) (ascii ''.'')
      then (skills, None)
      else if \<not> has_skill_md e then (skills, None)
      else if has_skill_py e then
        (case python_skill e of
           None \<Rightarrow> (skills, None)
         | Some skill \<Rightarrow> (dict_set skills (name (metadata skill)) skill, None))
      else
        (case dynamic_skill e of
           Raises ex \<Rightarrow> (skills, Some ex)
         | Returns skill \<Rightarrow> (dict_set skills (name (metadata skill)) skill, None)))"

fun load_all :: "dir_entry list \<Rightarrow> registry \<Rightarrow> registry \<times> str option" where
  "load_all [] skills = (skills, None)"
| "load_all (e # es) skills =
     (case load_entry e skills of
        (skills', Some ex) \<Rightarrow> (skills', Some ex)
      | (skills', None) \<Rightarrow> load_all es skills')"

text \<open>\<open>get_all_skills\<close> returns a copy of the table, in the table's order.\<close>

definition get_all_skills :: "registry \<Rightarrow> registry" where
  "get_all_skills skills = skills"

definition get_skill :: "registry \<Rightarrow> str \<Rightarrow> BaseSkill option" where
  "get_skill skills n = map_of skills n"

definition list_skills :: "registry \<Rightarrow> SkillMetadata list" where
  "list_skills skills = map (\<lambda>(n, skill). metadata skill) skills"

text \<open>\<open>reload\<close>: \<open>self._skills.clear()\<close>, then \<open>self._load_all()\<close>, on the same table.\<close>

definition reload :: "dir_entry list \<Rightarrow> registry \<Rightarrow> registry \<times> str option" where
  "reload entries skills = load_all entries []"

text \<open>
  The table's successive contents while \<open>reload\<close> runs: before the call, after
  \<open>clear()\<close>, and after each turn of the loop of \<open>_load_all\<close>.
\<close>

fun loading_states :: "dir_entry list \<Rightarrow> registry \<Rightarrow> registry list" where
  "loading_states [] skills = []"
| "loading_states (e # es) skills =
     (case load_entry e skills of
        (skills', Some ex) \<Rightarrow> [skills']
      | (skills', None) \<Rightarrow> skills' # loading_states es skills')"

definition reload_states :: "dir_entry list \<Rightarrow> registry \<Rightarrow> registry list" where
  "reload_states entries skills = skills # [] # loading_states entries []"







section \<open>The matcher (skills/matcher.py)\<close>

text \<open>
  Scores are Python floats in the source. They are modelled as rationals: the arithmetic of
  the scorers is a handful of sums and products of one-digit decimals.
\<close>

text \<open>
  \<open>re.findall(r'\b[a-zA-Z]{3,}\b', text)\<close>: a match starts and ends at a word boundary and
  holds letters of \<open>[a-zA-Z]\<close> only, so it is a maximal run of word characters that consists
  of at least three such letters. \<open>word_runs\<close> splits a text into its maximal runs of word
  characters.
\<close>

fun word_runs :: "tables \<Rightarrow> str \<Rightarrow> str \<Rightarrow> str list" where
  "word_runs T cur [] = (if cur = [] then [] else [cur])"
| "word_runs T cur (c # cs) =
     (if isword T c then word_runs T (cur @ [c]) cs
      else (if cur = [] then [] else [cur]) @ word_runs T [] cs)"

definition findall_english_words :: "tables \<Rightarrow> str \<Rightarrow> str list" where
  "findall_english_words T txt =
     filter (\<lambda>w. 3 \<le> length w \<and> list_all is_ascii_letter w) (word_runs T [] txt)"

definition action_words :: "str list" where
  "action_words =
     map ascii
       [''review'', ''search'', ''find'', ''install'', ''get'', ''use'', ''create'',
        ''generate'', ''execute'', ''run'', ''code'', ''test'', ''debug'', ''fix''] @
     [[0x5206, 0x6790],
      [0x641C, 0x7D22],
      [0x67E5, 0x627E],
      [0x5B89, 0x88C5],
      [0x83B7, 0x53D6],
      [0x4F7F, 0x7528],
      [0x521B, 0x5EFA],
      [0x751F, 0x6210],
      [0x6267, 0x884C],
      [0x8FD0, 0x884C],
      [0x4EE3, 0x7801],
      [0x6D4B, 0x8BD5],
      [0x8C03, 0x8BD5],
      [0x4FEE, 0x590D],
      [0x5BA1, 0x67E5]]"

text \<open>
  \<open>_extract_keywords\<close>. \<open>list(set(keywords))\<close> removes duplicates; the order of the result
  is not fixed by Python and no caller depends on it.
\<close>

definition extract_keywords :: "tables \<Rightarrow> str \<Rightarrow> str list" where
  "extract_keywords T txt =
     remdups (findall_english_words T (lower T txt) @
              filter (\<lambda>word. py_in word (lower T txt)) action_words)"

text \<open>The keyword list \<open>_match_by_keywords\<close> builds for one skill.\<close>

definition skill_keywords :: "tables \<Rightarrow> BaseSkill \<Rightarrow> str list" where
  "skill_keywords T skill =
     extract_keywords T (description (metadata skill)) @
     extract_keywords T (get_full_content skill)"

text \<open>The body of the loop of \<open>_match_by_keywords\<close>: the score of one skill.\<close>

definition keyword_score :: "tables \<Rightarrow> str \<Rightarrow> BaseSkill \<Rightarrow> rat" where
  "keyword_score T user_message_lower skill =
     (let score0 = (if py_in (lower T (name (metadata skill))) user_message_lower
                    then 0.5 else 0);
          matched_keywords =
            length (filter (\<lambda>kw. py_in kw user_message_lower) (skill_keywords T skill));
          score1 = (if matched_keywords > 0
                    then score0 + min (of_nat matched_keywords * 0.2) 0.5 else score0)
      in min score1 1.0)"

text \<open>
  The dictionaries of the matcher are keyed by skill objects, which are pairwise distinct;
  they are modelled as lists aligned with the list \<open>skills\<close>: the entry of the skill at
  position \<open>i\<close> stands at position \<open>i\<close>.
\<close>

definition match_by_keywords :: "tables \<Rightarrow> str \<Rightarrow> BaseSkill list \<Rightarrow> rat list" where
  "match_by_keywords T user_msg skills = map (keyword_score T (lower T user_msg)) skills"

text \<open>
  Requests to the external model. The fixed wording of each prompt is left out; what varies
  is kept: for the skill selection, the numbered names and descriptions and the user's
  message; for a generic skill execution, the skill's name, description, instruction text and
  reference documents, the user's message and the last turns of the conversation; for the
  chat, the conversation and the model name.
\<close>

datatype llm_request =
    SkillSelection "(nat \<times> str \<times> str) list" str
  | SkillExecution str str str "(str \<times> str) list" str "message list"
  | ChatStream "message list" str

text \<open>
  The external model, for a non-streaming call: the call raises, or its first choice holds
  a content, which may be absent.
\<close>

type_synonym llm = "llm_request \<Rightarrow> str option outcome"

text \<open>The request \<open>_match_by_semantic\<close> sends: the skills numbered from 1.\<close>

definition selection_request :: "BaseSkill list \<Rightarrow> str \<Rightarrow> llm_request" where
  "selection_request skills user_msg =
     SkillSelection
       (map (\<lambda>(i, skill). (i + 1, name (metadata skill), description (metadata skill)))
            (enumerate 0 skills))
       user_msg"

text \<open>
  \<open>_match_by_semantic\<close>: the scores, and the requests sent to the external model. Every
  exception of the body is caught by its \<open>except Exception\<close>.
\<close>

definition match_by_semantic ::
  "tables \<Rightarrow> llm \<Rightarrow> str \<Rightarrow> BaseSkill list \<Rightarrow> message list \<Rightarrow> rat list \<times> llm_request list" where
  "match_by_semantic T ask user_msg skills history =
     (let request = selection_request skills user_msg;
          zeros = map (\<lambda>skill. 0) skills
      in (case ask request of
            Raises ex \<Rightarrow> zeros
          | Returns None \<Rightarrow> zeros
          | Returns (Some reply) \<Rightarrow>
              (case py_int T (strip T reply) of
                 None \<Rightarrow> zeros
               | Some skill_index \<Rightarrow>
                   if skill_index = 0 then zeros
                   else if 1 \<le> skill_index \<and> skill_index \<le> int (length skills)
                   then map (\<lambda>i. if i = nat (skill_index - 1) then 0.9 else 0.1)
                            [0..<length skills]
                   else zeros),
          [request]))"

text \<open>
  \<open>max(items, key=...)\<close> on a non-empty sequence: the first item whose key is maximal.
\<close>

fun max_from :: "('a \<times> rat) \<Rightarrow> ('a \<times> rat) list \<Rightarrow> ('a \<times> rat)" where
  "max_from best [] = best"
| "max_from best (x # xs) = max_from (if snd best < snd x then x else best) xs"

text \<open>\<open>scores.get(skill, 0.0)\<close> for the skill at position \<open>i\<close>.\<close>

definition get_score :: "rat list \<Rightarrow> nat \<Rightarrow> rat" where
  "get_score scores i = (if i < length scores then scores ! i else 0)"

text \<open>The dictionary \<open>scores\<close> of \<open>match_skill\<close>, as its items in insertion order.\<close>

definition combined_scores ::
  "BaseSkill list \<Rightarrow> rat list \<Rightarrow> rat list \<Rightarrow> (BaseSkill \<times> rat) list" where
  "combined_scores skills keyword_matches semantic_matches =
     map (\<lambda>i. (skills ! i,
               get_score keyword_matches i * 0.4 + get_score semantic_matches i * 0.6))
         [0..<length skills]"

text \<open>
  The end of \<open>match_skill\<close>, from the two dictionaries of scores on: the scores are
  combined, the maximum is taken and compared with the threshold. On an empty list of skills
  \<open>max\<close> raises \<open>ValueError\<close>.
\<close>

definition best_match ::
  "BaseSkill list \<Rightarrow> rat list \<Rightarrow> rat list \<Rightarrow> (BaseSkill \<times> rat) option outcome" where
  "best_match skills keyword_matches semantic_matches =
     (case combined_scores skills keyword_matches semantic_matches of
        [] \<Rightarrow> Raises (ascii ''max() arg is an empty sequence'')
      | first # others \<Rightarrow>
          (let best_skill = max_from first others
           in if snd best_skill < 0.3 then Returns None else Returns (Some best_skill)))"

text \<open>
  \<open>match_skill\<close>: the match, if any, and the requests sent to the external model. Where
  \<open>max\<close> is taken the list of skills is not empty, so \<open>max\<close> does not raise.
\<close>

definition match_skill ::
  "tables \<Rightarrow> llm \<Rightarrow> registry \<Rightarrow> str \<Rightarrow> message list
     \<Rightarrow> (BaseSkill \<times> rat) option \<times> llm_request list" where
  "match_skill T ask table user_msg history =
     (let skills = map snd (get_all_skills table)
      in if skills = [] then (None, [])
         else
           (let keyword_matches = match_by_keywords T user_msg skills;
                (semantic_matches, calls) = match_by_semantic T ask user_msg skills history
            in (case best_match skills keyword_matches semantic_matches of
                  Raises ex \<Rightarrow> (None, calls)
                | Returns best \<Rightarrow> (best, calls))))"


section \<open>Reference documents (skills/base.py)\<close>

text \<open>
  A directory tree. A file holds what \<open>read_text(encoding="utf-8")\<close> gives for it: its text,
  or the exception raised when it cannot be read or decoded. A directory holds its entries
  by name.
\<close>

datatype node = File "str outcome" | Dir "(str \<times> node) list"

definition ends_with :: "str \<Rightarrow> str \<Rightarrow> bool" where
  "ends_with s suffix = starts_with (rev s) (rev suffix)"

text \<open>
  \<open>references_dir.glob("**/*.md")\<close>: every path below the directory whose last component
  matches \<open>*.md\<close>, as its components relative to the directory; the entries of a directory
  come before those of its subdirectories.
\<close>

fun glob_md :: "str list \<Rightarrow> node \<Rightarrow> (str list \<times> node) list" where
  "glob_md rel (File t) = []"
| "glob_md rel (Dir entries) =
     map (\<lambda>e. (rel @ [fst e], snd e)) (filter (\<lambda>e. ends_with (fst e) (ascii ''.md'')) entries) @
     concat (map (\<lambda>e. glob_md (rel @ [fst e]) (snd e)) entries)"

text \<open>The separator of path components, \<open>/\<close>.\<close>

definition slash :: nat where
  "slash = 47"

text \<open>\<open>str(relative_path)\<close>: the components joined by \<open>/\<close>.\<close>

fun path_str :: "str list \<Rightarrow> str" where
  "path_str [] = ascii ''.''"
| "path_str [n] = n"
| "path_str (n # m # ns) = n @ [slash] @ path_str (m # ns)"

text \<open>
  The loop of \<open>_load_references\<close>. Reading a directory raises \<open>IsADirectoryError\<close>.
\<close>

fun store_references ::
  "(str list \<times> node) list \<Rightarrow> (str \<times> str) list \<Rightarrow> (str \<times> str) list outcome" where
  "store_references [] refs = Returns refs"
| "store_references ((rel, Dir entries) # rest) refs = Raises (ascii ''IsADirectoryError'')"
| "store_references ((rel, File (Raises ex)) # rest) refs = Raises ex"
| "store_references ((rel, File (Returns doc)) # rest) refs =
     store_references rest (dict_set refs (path_str rel) doc)"

text \<open>\<open>_load_references\<close> on a skill directory, given as its entries.\<close>

definition load_references :: "(str \<times> node) list \<Rightarrow> (str \<times> str) list outcome" where
  "load_references skill_dir =
     (case map_of skill_dir (ascii ''references'') of
        None \<Rightarrow> Returns []
      | Some references_dir \<Rightarrow> store_references (glob_md [] references_dir) [])"

text \<open>The node at a relative path, if there is one.\<close>

fun lookup_path :: "node \<Rightarrow> str list \<Rightarrow> node option" where
  "lookup_path x [] = Some x"
| "lookup_path (File t) (n # ns) = None"
| "lookup_path (Dir entries) (n # ns) =
     (case map_of entries n of None \<Rightarrow> None | Some y \<Rightarrow> lookup_path y ns)"

text \<open>
  A tree as a file system has it: in each directory the names are pairwise distinct, and no
  name is empty or holds a \<open>/\<close>.
\<close>

fun wf_node :: "node \<Rightarrow> bool" where
  "wf_node (File t) = True"
| "wf_node (Dir entries) =
     (distinct (map fst entries) \<and>
      list_all (\<lambda>e. fst e \<noteq> [] \<and> slash \<notin> set (fst e) \<and> wf_node (snd e)) entries)"


section \<open>The generic handler (skills/base.py)\<close>

text \<open>\<open>conversation_history[-5:]\<close>.\<close>

definition last_five :: "'a list \<Rightarrow> 'a list" where
  "last_five xs = drop (length xs - 5) xs"

text \<open>
  The message of the validation error that \<open>SkillResult(content=None, ...)\<close> raises: the
  field \<open>content\<close> is declared \<open>str\<close>.
\<close>

definition content_validation_error :: str where
  "content_validation_error = ascii ''1 validation error for SkillResult''"

definition failure :: "str \<Rightarrow> SkillResult" where
  "failure msg = \<lparr>success = False, content = [], result_metadata = None, error = Some msg\<rparr>"

text \<open>
  \<open>DynamicPythonSkill.execute\<close>: the result, and the requests sent to the external model.
  The whole body sits in \<open>try ... except Exception\<close>.
\<close>

definition dynamic_execute ::
  "llm \<Rightarrow> BaseSkill \<Rightarrow> SkillContext \<Rightarrow> SkillResult \<times> llm_request list" where
  "dynamic_execute ask skill ctx =
     (let request =
            SkillExecution (name (metadata skill)) (description (metadata skill))
              (get_full_content skill) (references skill) (user_message ctx)
              (last_five (conversation_history ctx))
      in (case ask request of
            Raises ex \<Rightarrow> failure ex
          | Returns None \<Rightarrow> failure content_validation_error
          | Returns (Some reply) \<Rightarrow>
              \<lparr>success = True, content = reply,
               result_metadata = Some [(ascii ''skill_name'', name (metadata skill))],
               error = None\<rparr>,
          [request]))"


section \<open>The calculator (skills/calculator/skill.py)\<close>

text \<open>
  \<open>str.replace(old, new)\<close> for a non-empty \<open>old\<close>: the occurrences are replaced from left to
  right, without overlap.
\<close>

function py_replace :: "str \<Rightarrow> str \<Rightarrow> str \<Rightarrow> str" where
  "py_replace old new [] = []"
| "py_replace old new (c # cs) =
     (if old \<noteq> [] \<and> starts_with (c # cs) old
      then new @ py_replace old new (drop (length old) (c # cs))
      else c # py_replace old new cs)"
  by pat_completeness auto
termination
  by (relation "measure (\<lambda>(old, new, s). length s)") auto

definition rstrip_char :: "nat \<Rightarrow> str \<Rightarrow> str" where
  "rstrip_char c s = rev (dropWhile (\<lambda>x. x = c) (rev s))"

text \<open>The two patterns of \<open>_extract_expression\<close>.\<close>

datatype pattern = ExpressionPattern | SimplePattern

text \<open>
  \<open>re.search(pattern, text)\<close> is a call into the \<open>re\<close> module: the matched text, if any, is
  a parameter of the model.
\<close>

type_synonym re_search = "pattern \<Rightarrow> str \<Rightarrow> str option"

text \<open>
  \<open>_extract_expression\<close>. The four characters replaced first are the fullwidth question
  mark, the fullwidth equals sign and the ideographs for multiplying and dividing.
\<close>

definition extract_expression :: "tables \<Rightarrow> re_search \<Rightarrow> str \<Rightarrow> str" where
  "extract_expression T search txt =
     (case search ExpressionPattern txt of
        Some expr \<Rightarrow>
          strip T
            (py_replace (ascii ''%'') (ascii ''/100'')
              (py_replace (ascii ''^'') (ascii ''**'')
                (py_replace [0x9664] (ascii ''/'')
                  (py_replace [0x4E58] (ascii ''*'')
                    (py_replace [0xFF1D] (ascii ''='')
                      (py_replace [0xFF1F] [] expr))))))
      | None \<Rightarrow>
          (case search SimplePattern txt of
             Some m \<Rightarrow> m
           | None \<Rightarrow> []))"

definition is_valid_expression :: "str \<Rightarrow> bool" where
  "is_valid_expression expr = list_all (\<lambda>c. c \<in> set (ascii ''0123456789+-*/(). %'')) expr"

text \<open>
  What \<open>eval\<close> returns, as far as \<open>execute\<close> looks at it: an \<open>int\<close>; a \<open>float\<close>, given by
  \<open>is_integer()\<close>, \<open>int(result)\<close> and its rendering with \<open>.6f\<close>; or a value of another type,
  given by its \<open>str\<close>. \<open>eval\<close> is a parameter of the model that raises or returns; an
  evaluation that does not come to an end is outside the model.
\<close>

datatype py_value =
    PyInt int
  | PyFloat bool int str
  | PyOther str

type_synonym py_eval = "str \<Rightarrow> py_value outcome"

function digits_of :: "nat \<Rightarrow> str" where
  "digits_of n =
     (if n < 10 then [48 + n]
      else digits_of (n div 10) @ [48 + n mod 10])"
  by pat_completeness auto
termination
  by (relation "measure (\<lambda>n. n)") auto

declare digits_of.simps [simp del]

text \<open>
  \<open>str(n)\<close> on an \<open>int\<close>: Python refuses to render more than 4300 digits and raises
  \<open>ValueError\<close>.
\<close>

definition py_str_int :: "int \<Rightarrow> str outcome" where
  "py_str_int i =
     (let ds = digits_of (nat \<bar>i\<bar>)
      in if 4300 < length ds
         then Raises (ascii ''Exceeds the limit (4300 digits) for integer string conversion'')
         else Returns (if i < 0 then ascii ''-'' @ ds else ds))"

text \<open>The formatting of the result in \<open>execute\<close>.\<close>

definition format_result :: "py_value \<Rightarrow> str outcome" where
  "format_result result =
     (case result of
        PyFloat is_integer as_int fixed6 \<Rightarrow>
          if is_integer then py_str_int as_int
          else Returns (rstrip_char 46 (rstrip_char 48 fixed6))
      | PyInt i \<Rightarrow> py_str_int i
      | PyOther s \<Rightarrow> Returns s)"

text \<open>The three error messages of \<open>execute\<close>, the last two up to the text appended.\<close>

definition no_expression_error :: str where
  "no_expression_error =
     [0x65E0, 0x6CD5, 0x4ECE, 0x6D88, 0x606F, 0x4E2D, 0x63D0, 0x53D6, 0x6570, 0x5B66, 0x8868,
      0x8FBE, 0x5F0F]"

definition illegal_chars_prefix :: str where
  "illegal_chars_prefix =
     [0x8868, 0x8FBE, 0x5F0F, 0x5305, 0x542B, 0x975E, 0x6CD5, 0x5B57, 0x7B26] @ ascii '': ''"

definition eval_error_prefix :: str where
  "eval_error_prefix = [0x8BA1, 0x7B97, 0x9519, 0x8BEF] @ ascii '': ''"

text \<open>
  \<open>CalculatorSkill.execute\<close>. An exception of \<open>eval\<close> is caught by the inner \<open>try\<close>, one of
  the formatting by the outer one.
\<close>

definition calculator_execute ::
  "tables \<Rightarrow> re_search \<Rightarrow> py_eval \<Rightarrow> SkillContext \<Rightarrow> SkillResult" where
  "calculator_execute T search evaluate ctx =
     (let expression = extract_expression T search (strip T (user_message ctx))
      in if expression = [] then failure no_expression_error
         else if \<not> is_valid_expression expression
         then failure (illegal_chars_prefix @ expression)
         else
           (case evaluate expression of
              Raises ex \<Rightarrow> failure (eval_error_prefix @ ex)
            | Returns result \<Rightarrow>
                (case format_result result of
                   Raises ex \<Rightarrow> failure ex
                 | Returns result_str \<Rightarrow>
                     \<lparr>success = True, content = expression @ ascii '' = '' @ result_str,
                      result_metadata =
                        Some [(ascii ''skill_name'', ascii ''calculator''),
                              (ascii ''expression'', expression),
                              (ascii ''result'', result_str)],
                      error = None\<rparr>)))"


section \<open>The orchestrator (api.py)\<close>

record ChatRequest =
  messages :: "message list"
  model :: "str option"
  stream :: bool
  enable_skills :: bool

text \<open>
  What surrounds one request: the character tables of the interpreter; the external model
  on a non-streaming call; the external model on the streaming call, given by the contents
  of the chunks it delivers (a chunk may carry none) and the exception that ends the stream,
  if any; the \<open>execute\<close> of skill classes that are not part of the repository; and the
  library calls of the calculator.
\<close>

record world =
  unicode :: tables
  ask_model :: llm
  stream_model :: "llm_request \<Rightarrow> str option list \<times> str option"
  native_execute :: "BaseSkill \<Rightarrow> SkillContext \<Rightarrow> SkillResult outcome"
  search_text :: re_search
  eval_expression :: py_eval

text \<open>\<open>await skill.execute(context)\<close>, by the class of the skill.\<close>

definition execute ::
  "world \<Rightarrow> BaseSkill \<Rightarrow> SkillContext \<Rightarrow> SkillResult outcome \<times> llm_request list" where
  "execute w skill ctx =
     (case handler skill of
        Dynamic \<Rightarrow>
          (let (result, calls) = dynamic_execute (ask_model w) skill ctx
           in (Returns result, calls))
      | Calculator \<Rightarrow>
          (Returns (calculator_execute (unicode w) (search_text w) (eval_expression w) ctx), [])
      | Native \<Rightarrow> (native_execute w skill ctx, []))"

text \<open>
  The fragments the generator yields. Each progress line is kept by its kind and by the
  values printed in it.
\<close>

datatype fragment =
    Analyzing
  | Matched str rat
  | Executing str
  | Succeeded str
  | Failed "str option"
  | Thinking
  | Chunk str

text \<open>
  One run of \<open>generate\<close>: the fragments yielded, in order; the requests sent to the external
  model, in order; the exception that ended the generator, if one did; and the list
  \<open>messages\<close> at the end.
\<close>

record run =
  fragments :: "fragment list"
  requests :: "llm_request list"
  raised :: "str option"
  final_messages :: "message list"

definition used_skill_note :: "str \<Rightarrow> str" where
  "used_skill_note n = [0x4F7F, 0x7528, 0x4E86] @ ascii '' '' @ n @ ascii '' Skill''"

text \<open>The second step of \<open>generate\<close>: the plain chat.\<close>

definition plain_chat ::
  "world \<Rightarrow> ChatRequest \<Rightarrow> message list \<Rightarrow> fragment list \<Rightarrow> llm_request list \<Rightarrow> run" where
  "plain_chat w request msgs yielded calls =
     (let chat_request =
            ChatStream msgs
              (case model request of
                 None \<Rightarrow> ascii ''deepseek-chat''
               | Some m \<Rightarrow> if m = [] then ascii ''deepseek-chat'' else m);
          (chunks, ex) = stream_model w chat_request
      in \<lparr>fragments =
            yielded @ [Thinking] @
            concat (map (\<lambda>c. case c of None \<Rightarrow> [] | Some s \<Rightarrow> if s = [] then [] else [Chunk s])
                        chunks),
          requests = calls @ [chat_request],
          raised = ex,
          final_messages = msgs\<rparr>)"

text \<open>\<open>chat\<close> with its generator \<open>generate\<close>, run to its end.\<close>

definition generate :: "world \<Rightarrow> registry \<Rightarrow> ChatRequest \<Rightarrow> run" where
  "generate w table request =
     (let msgs = messages request;
          user_msg = (if msgs = [] then [] else snd (last msgs))
      in if enable_skills request \<and> strip (unicode w) user_msg \<noteq> [] then
           (let (matched, match_calls) =
                  match_skill (unicode w) (ask_model w) table user_msg (butlast msgs)
            in (case matched of
                  Some (skill, confidence) \<Rightarrow>
                    (let yielded =
                           [Analyzing, Matched (name (metadata skill)) confidence,
                            Executing (name (metadata skill))];
                         ctx = \<lparr>user_message = user_msg, conversation_history = msgs,
                                variables = []\<rparr>;
                         (outcome, execute_calls) = execute w skill ctx
                     in (case outcome of
                           Raises ex \<Rightarrow>
                             \<lparr>fragments = yielded,
                              requests = match_calls @ execute_calls,
                              raised = Some ex,
                              final_messages = msgs\<rparr>
                         | Returns result \<Rightarrow>
                             \<lparr>fragments =
                                yielded @
                                [if success result then Succeeded (content result)
                                 else Failed (error result)],
                              requests = match_calls @ execute_calls,
                              raised = None,
                              final_messages =
                                msgs @
                                [(ascii ''assistant'', used_skill_note (name (metadata skill)))]\<rparr>))
                | None \<Rightarrow> plain_chat w request msgs [Analyzing] match_calls))
         else plain_chat w request msgs [] [])"


section \<open>Sample inputs\<close>

text \<open>
  The characters of \<open>str.isspace\<close> and the zeros of the decimal digits, each followed by its
  digits one to nine, as Python 3.11 has them.
\<close>

definition python_spaces :: "nat list" where
  "python_spaces =
     [0x9, 0xA, 0xB, 0xC, 0xD, 0x1C, 0x1D, 0x1E, 0x1F, 0x20, 0x85, 0xA0, 0x1680, 0x2000,
      0x2001, 0x2002, 0x2003, 0x2004, 0x2005, 0x2006, 0x2007, 0x2008, 0x2009, 0x200A, 0x2028,
      0x2029, 0x202F, 0x205F, 0x3000]"

definition python_zeros :: "nat list" where
  "python_zeros =
     [0x30, 0x660, 0x6F0, 0x7C0, 0x966, 0x9E6, 0xA66, 0xAE6, 0xB66, 0xBE6, 0xC66, 0xCE6,
      0xD66, 0xDE6, 0xE50, 0xED0, 0xF20, 0x1040, 0x1090, 0x17E0, 0x1810, 0x1946, 0x19D0,
      0x1A80, 0x1A90, 0x1B50, 0x1BB0, 0x1C40, 0x1C50, 0xA620, 0xA8D0, 0xA900, 0xA9D0, 0xA9F0,
      0xAA50, 0xABF0, 0xFF10, 0x104A0, 0x10D30, 0x11066, 0x110F0, 0x11136, 0x111D0, 0x112F0,
      0x11450, 0x114D0, 0x11650, 0x116C0, 0x11730, 0x118E0, 0x11950, 0x11C50, 0x11D50,
      0x11DA0, 0x16A60, 0x16AC0, 0x16B50, 0x1D7CE, 0x1D7D8, 0x1D7E2, 0x1D7EC, 0x1D7F6,
      0x1E140, 0x1E2F0, 0x1E950, 0x1FBF0]"

text \<open>
  The tables of the samples. Whitespace and decimal digits are Python's in full. The word
  characters and the lower-casing are Python's on Basic Latin, which is all the samples
  need: no sample holds a letter or a digit from outside Basic Latin where a text is
  lower-cased or split into words.
\<close>

definition sample_tables :: tables where
  "sample_tables =
     \<lparr>isspace = (\<lambda>c. c \<in> set python_spaces),
      decimal = (\<lambda>c. case filter (\<lambda>z. z \<le> c \<and> c < z + 10) python_zeros of
                       [] \<Rightarrow> None
                     | z # zs \<Rightarrow> Some (c - z)),
      isword = (\<lambda>c. is_ascii_letter c \<or> (48 \<le> c \<and> c \<le> 57) \<or> c = 95),
      lower = map (\<lambda>c. if 65 \<le> c \<and> c \<le> 90 then c + 32 else c)\<rparr>"

text \<open>A \<open>SKILL.md\<close> that holds nothing but its frontmatter.\<close>

definition manifest :: "string \<Rightarrow> string \<Rightarrow> str" where
  "manifest n d =
     ascii (''---'' @ [CHR 0x0A] @ ''name: '' @ n @ [CHR 0x0A] @ ''description: '' @ d @
            [CHR 0x0A] @ ''---'' @ [CHR 0x0A])"

text \<open>The skill object loaded from a directory that holds such a \<open>SKILL.md\<close>.\<close>

definition sample_skill :: "string \<Rightarrow> string \<Rightarrow> handler \<Rightarrow> BaseSkill" where
  "sample_skill n d h =
     \<lparr>metadata = \<lparr>name = ascii n, description = ascii d, category = None, tags = None,
                  author = None, version = None\<rparr>,
      references = [], skill_md = manifest n d, handler = h\<rparr>"

text \<open>A directory of the skills directory that holds a \<open>SKILL.md\<close> and no \<open>skill.py\<close>.\<close>

definition sample_entry :: "string \<Rightarrow> BaseSkill \<Rightarrow> dir_entry" where
  "sample_entry d skill =
     \<lparr>entry_name = ascii d, is_dir = True, has_skill_md = True, has_skill_py = False,
      python_skill = None, dynamic_skill = Returns skill\<rparr>"

text \<open>
  A world for the samples: the external model answers \<open>1\<close> to every non-streaming request
  and streams \<open>Hel\<close>, a chunk without content, an empty content and \<open>lo\<close>; the \<open>execute\<close> of
  a skill class from outside the repository raises; \<open>re.search\<close> and \<open>eval\<close> answer as
  Python does on the message \<open>calculator 2+2\<close> and on messages that hold no digit and no
  operator.
\<close>

definition sample_world :: world where
  "sample_world =
     \<lparr>unicode = sample_tables,
      ask_model = (\<lambda>request. Returns (Some (ascii ''1''))),
      stream_model =
        (\<lambda>request. ([Some (ascii ''Hel''), None, Some [], Some (ascii ''lo'')], None)),
      native_execute = (\<lambda>skill ctx. Raises (ascii ''boom'')),
      search_text =
        (\<lambda>p txt. if p = ExpressionPattern \<and> txt = ascii ''calculator 2+2''
                  then Some (ascii ''2+2'') else None),
      eval_expression = (\<lambda>expression. Returns (PyInt 4))\<rparr>"

text \<open>
  A skill directory with reference documents: two Markdown files, one of them in a
  subdirectory, and a text file.
\<close>

definition sample_skill_dir :: "(str \<times> node) list" where
  "sample_skill_dir =
     [(ascii ''SKILL.md'', File (Returns (manifest ''notes'' ''take notes''))),
      (ascii ''references'',
       Dir [(ascii ''guide.md'', File (Returns (ascii ''# Guide''))),
            (ascii ''notes.txt'', File (Returns (ascii ''plain notes''))),
            (ascii ''api'', Dir [(ascii ''errors.md'', File (Returns (ascii ''# Errors'')))])])]"


section \<open>The lexical score in the words of the specification\<close>

text \<open>
  The lexical score as the specification words it, for comparison with \<open>keyword_score\<close>:
  the matched count is the number of distinct keywords that occur in the message.
\<close>

definition lexical_score_as_specified :: "tables \<Rightarrow> str \<Rightarrow> BaseSkill \<Rightarrow> rat" where
  "lexical_score_as_specified T user_message_lower skill =
     min ((if py_in (lower T (name (metadata skill))) user_message_lower then 0.5 else 0) +
          min (of_nat (length (filter (\<lambda>kw. py_in kw user_message_lower)
                                 (remdups (skill_keywords T skill)))) * 0.2) 0.5)
         1.0"


section \<open>Selection of the maximum\<close>





lemma match_by_semantic_length:
  "length (fst (match_by_semantic T ask msg skills h)) = length skills"
  by (simp add: match_by_semantic_def Let_def split: outcome.splits option.splits)

lemma match_by_keywords_length: "length (match_by_keywords T msg skills) = length skills"
  by (simp add: match_by_keywords_def)






section \<open>The matcher\<close>



text \<open>
  C10. On an empty table \<open>match_skill\<close> returns no match and sends no request to the
  external model.
\<close>

theorem no_skills_no_match:
  "match_skill T ask [] msg h = (None, [])"
  by (simp add: match_skill_def get_all_skills_def)

theorem no_skills_no_match_witness:
  "match_skill sample_tables (\<lambda>request. Returns (Some (ascii ''1''))) []
     (ascii ''calculator 2+2'') [] = (None, []) \<and>
   snd (match_skill sample_tables (\<lambda>request. Returns (Some (ascii ''1'')))
          [(ascii ''calculator'', sample_skill ''calculator'' ''math'' Calculator)]
          (ascii ''calculator 2+2'') []) =
     [SkillSelection [(1, ascii ''calculator'', ascii ''math'')] (ascii ''calculator 2+2'')]"
proof -
  have sent: "snd (match_skill sample_tables (\<lambda>request. Returns (Some (ascii ''1'')))
          [(ascii ''calculator'', sample_skill ''calculator'' ''math'' Calculator)]
          (ascii ''calculator 2+2'') []) =
     [SkillSelection [(1, ascii ''calculator'', ascii ''math'')] (ascii ''calculator 2+2'')]"
    by code_simp
  from sent no_skills_no_match
      [of sample_tables "\<lambda>request. Returns (Some (ascii ''1''))" "ascii ''calculator 2+2''" "[]"]
  show ?thesis by (intro conjI)
qed

lemma zero_assisted_scores:
  "map snd (combined_scores skills (map f skills) (map (\<lambda>s. 0) skills)) =
   map (\<lambda>s. 0.4 * f s) skills"
  by (intro nth_equalityI) (simp_all add: combined_scores_def get_score_def mult.commute)

text \<open>
  C3. When the call to the external model raises, or its reply has no content, or \<open>int\<close>
  refuses the stripped reply, or the reply is a number outside \<open>0..len(skills)\<close>, the
  model-assisted score of every skill is \<open>0\<close> and the combined score of every skill is
  \<open>0.4\<close> times its lexical score. The function returns these scores: no exception leaves
  it. This holds whatever the Unicode tables of the interpreter are.
\<close>

theorem semantic_failure_degrades_to_lexical:
  assumes "ask (selection_request skills msg) = Raises ex \<or>
           ask (selection_request skills msg) = Returns None \<or>
           (\<exists>reply. ask (selection_request skills msg) = Returns (Some reply) \<and>
              (py_int T (strip T reply) = None \<or>
               (\<exists>k. py_int T (strip T reply) = Some k \<and> (k < 0 \<or> int (length skills) < k))))"
  shows "fst (match_by_semantic T ask msg skills h) = map (\<lambda>skill. 0) skills \<and>
         map snd (combined_scores skills (match_by_keywords T msg skills)
                    (fst (match_by_semantic T ask msg skills h))) =
         map (\<lambda>skill. 0.4 * keyword_score T (lower T msg) skill) skills"
proof -
  have zeros: "fst (match_by_semantic T ask msg skills h) = map (\<lambda>skill. 0) skills"
    using assms by (auto simp: match_by_semantic_def Let_def)
  show ?thesis
    unfolding zeros match_by_keywords_def by (simp add: zero_assisted_scores)
qed

theorem semantic_failure_degrades_to_lexical_witness:
  "py_int sample_tables (strip sample_tables (ascii ''none of them'')) = None \<and>
   py_int sample_tables (strip sample_tables ([0x3000, 0xFF11] @ ascii '' '')) = Some 1 \<and>
   fst (match_by_semantic sample_tables (\<lambda>request. Returns (Some (ascii ''none of them'')))
          (ascii ''calculator 2+2'') [sample_skill ''calculator'' ''math'' Calculator] []) = [0] \<and>
   map snd (combined_scores [sample_skill ''calculator'' ''math'' Calculator]
              (match_by_keywords sample_tables (ascii ''calculator 2+2'')
                 [sample_skill ''calculator'' ''math'' Calculator])
              (fst (match_by_semantic sample_tables
                      (\<lambda>request. Returns (Some (ascii ''none of them'')))
                      (ascii ''calculator 2+2'')
                      [sample_skill ''calculator'' ''math'' Calculator] []))) = [7 / 25]"
proof -
  let ?s = "sample_skill ''calculator'' ''math'' Calculator"
  let ?ask = "\<lambda>request. Returns (Some (ascii ''none of them''))"
  let ?msg = "ascii ''calculator 2+2''"
  have words: "py_int sample_tables (strip sample_tables (ascii ''none of them'')) = None"
    by code_simp
  have fullwidth:
    "py_int sample_tables (strip sample_tables ([0x3000, 0xFF11] @ ascii '' '')) = Some 1"
    by code_simp
  have lexical: "0.4 * keyword_score sample_tables (lower sample_tables ?msg) ?s = 7 / 25"
    by code_simp
  have degrades:
    "fst (match_by_semantic sample_tables ?ask ?msg [?s] []) = map (\<lambda>skill. 0) [?s] \<and>
     map snd (combined_scores [?s] (match_by_keywords sample_tables ?msg [?s])
                (fst (match_by_semantic sample_tables ?ask ?msg [?s] []))) =
       map (\<lambda>skill. 0.4 * keyword_score sample_tables (lower sample_tables ?msg) skill) [?s]"
    by (rule semantic_failure_degrades_to_lexical
          [where ask = ?ask and ex = "[]" and T = sample_tables])
       (simp add: words)
  have "fst (match_by_semantic sample_tables ?ask ?msg [?s] []) = map (\<lambda>skill. 0) [?s]"
    using degrades by (rule conjunct1)
  then have zeros: "fst (match_by_semantic sample_tables ?ask ?msg [?s] []) = [0]"
    by (simp only: list.map)
  have "map snd (combined_scores [?s] (match_by_keywords sample_tables ?msg [?s])
                (fst (match_by_semantic sample_tables ?ask ?msg [?s] []))) =
       map (\<lambda>skill. 0.4 * keyword_score sample_tables (lower sample_tables ?msg) skill) [?s]"
    using degrades by (rule conjunct2)
  then have "map snd (combined_scores [?s] (match_by_keywords sample_tables ?msg [?s])
                (fst (match_by_semantic sample_tables ?ask ?msg [?s] []))) =
       [0.4 * keyword_score sample_tables (lower sample_tables ?msg) ?s]"
    by (simp only: list.map)
  then have scores: "map snd (combined_scores [?s] (match_by_keywords sample_tables ?msg [?s])
                (fst (match_by_semantic sample_tables ?ask ?msg [?s] []))) = [7 / 25]"
    by (simp only: lexical)
  from words fullwidth zeros scores show ?thesis by (intro conjI)
qed

text \<open>
  C2. The lexical score of \<open>_match_by_keywords\<close> at a skill whose description and
  \<open>SKILL.md\<close> both hold the word \<open>review\<close>, for the message \<open>please review\<close>: the word is
  counted once for the description and once for the file, which gives \<open>0.4\<close>, where the
  count of distinct keywords gives \<open>0.2\<close>.
\<close>

theorem keyword_counted_twice:
  "keyword_score sample_tables (lower sample_tables (ascii ''please review''))
     (sample_skill ''reviewer'' ''review'' Dynamic) = 2 / 5 \<and>
   lexical_score_as_specified sample_tables (lower sample_tables (ascii ''please review''))
     (sample_skill ''reviewer'' ''review'' Dynamic) = 1 / 5"
  by code_simp


section \<open>The handlers\<close>

text \<open>
  C9. A result of the calculator's \<open>execute\<close> has, when it is a success, a content that is
  not empty and no error, and, when it is a failure, an empty content and an error. A result
  of the generic handler's \<open>execute\<close> has, when it is a success, no error and the reply of the
  external model as its content, whatever that reply is, and, when it is a failure, an empty
  content and an error.
\<close>

theorem skill_result_shape:
  "(let r = calculator_execute T search evaluate ctx
    in (success r \<longrightarrow> content r \<noteq> [] \<and> error r = None) \<and>
       (\<not> success r \<longrightarrow> content r = [] \<and> error r \<noteq> None)) \<and>
   (let r = fst (dynamic_execute ask skill ctx')
    in (success r \<longrightarrow> error r = None \<and>
          (\<exists>request. snd (dynamic_execute ask skill ctx') = [request] \<and>
                     ask request = Returns (Some (content r)))) \<and>
       (\<not> success r \<longrightarrow> content r = [] \<and> error r \<noteq> None))"
  by (auto simp: calculator_execute_def dynamic_execute_def failure_def Let_def ascii_def
           split: outcome.splits option.splits)

theorem skill_result_shape_witness:
  "calculator_execute sample_tables (search_text sample_world) (eval_expression sample_world)
     \<lparr>user_message = ascii ''calculator 2+2'', conversation_history = [], variables = []\<rparr> =
     \<lparr>success = True, content = ascii ''2+2 = 4'',
      result_metadata = Some [(ascii ''skill_name'', ascii ''calculator''),
                              (ascii ''expression'', ascii ''2+2''),
                              (ascii ''result'', ascii ''4'')],
      error = None\<rparr> \<and>
   fst (dynamic_execute (\<lambda>request. Raises (ascii ''timeout''))
          (sample_skill ''notes'' ''take notes'' Dynamic)
          \<lparr>user_message = ascii ''note this'', conversation_history = [], variables = []\<rparr>) =
     \<lparr>success = False, content = [], result_metadata = None,
      error = Some (ascii ''timeout'')\<rparr> \<and>
   (let r = calculator_execute sample_tables (search_text sample_world)
              (eval_expression sample_world)
              \<lparr>user_message = ascii ''calculator 2+2'', conversation_history = [],
               variables = []\<rparr>
    in (success r \<longrightarrow> content r \<noteq> [] \<and> error r = None) \<and>
       (\<not> success r \<longrightarrow> content r = [] \<and> error r \<noteq> None)) \<and>
   (let r = fst (dynamic_execute (\<lambda>request. Raises (ascii ''timeout''))
                   (sample_skill ''notes'' ''take notes'' Dynamic)
                   \<lparr>user_message = ascii ''note this'', conversation_history = [],
                    variables = []\<rparr>)
    in (success r \<longrightarrow> error r = None \<and>
          (\<exists>request. snd (dynamic_execute (\<lambda>request. Raises (ascii ''timeout''))
                             (sample_skill ''notes'' ''take notes'' Dynamic)
                             \<lparr>user_message = ascii ''note this'', conversation_history = [],
                              variables = []\<rparr>) = [request] \<and>
                     (\<lambda>request. Raises (ascii ''timeout'')) request =
                       Returns (Some (content r)))) \<and>
       (\<not> success r \<longrightarrow> content r = [] \<and> error r \<noteq> None))"
proof -
  have calc: "calculator_execute sample_tables (search_text sample_world)
     (eval_expression sample_world)
     \<lparr>user_message = ascii ''calculator 2+2'', conversation_history = [], variables = []\<rparr> =
     \<lparr>success = True, content = ascii ''2+2 = 4'',
      result_metadata = Some [(ascii ''skill_name'', ascii ''calculator''),
                              (ascii ''expression'', ascii ''2+2''),
                              (ascii ''result'', ascii ''4'')],
      error = None\<rparr>"
    by code_simp
  have dyn: "fst (dynamic_execute (\<lambda>request. Raises (ascii ''timeout''))
          (sample_skill ''notes'' ''take notes'' Dynamic)
          \<lparr>user_message = ascii ''note this'', conversation_history = [], variables = []\<rparr>) =
     \<lparr>success = False, content = [], result_metadata = None,
      error = Some (ascii ''timeout'')\<rparr>"
    by (simp add: dynamic_execute_def failure_def)
  from calc dyn
    skill_result_shape
      [of sample_tables "search_text sample_world" "eval_expression sample_world"
          "\<lparr>user_message = ascii ''calculator 2+2'', conversation_history = [],
            variables = []\<rparr>"
          "\<lambda>request. Raises (ascii ''timeout'')" "sample_skill ''notes'' ''take notes'' Dynamic"
          "\<lparr>user_message = ascii ''note this'', conversation_history = [], variables = []\<rparr>"]
  show ?thesis by blast
qed

text \<open>
  The generic handler on an empty reply of the external model: the result is a success and
  its content is empty.
\<close>

theorem empty_reply_is_a_success:
  "success (fst (dynamic_execute (\<lambda>request. Returns (Some []))
                   (sample_skill ''notes'' ''take notes'' Dynamic)
                   \<lparr>user_message = ascii ''note this'',
                    conversation_history = [(ascii ''user'', ascii ''note this'')],
                    variables = []\<rparr>)) \<and>
   content (fst (dynamic_execute (\<lambda>request. Returns (Some []))
                   (sample_skill ''notes'' ''take notes'' Dynamic)
                   \<lparr>user_message = ascii ''note this'',
                    conversation_history = [(ascii ''user'', ascii ''note this'')],
                    variables = []\<rparr>)) = []"
  by (simp add: dynamic_execute_def)


section \<open>The orchestrator\<close>

lemma strip_blank: "list_all (isspace T) s \<Longrightarrow> strip T s = []"
proof -
  assume "list_all (isspace T) s"
  then have "dropWhile (isspace T) s = []"
    by (simp add: list_all_iff)
  then show ?thesis
    unfolding strip_def by (simp only: rev.simps dropWhile.simps)
qed

text \<open>
  C6. When skill routing is disabled, or there is no message, or the last message is empty
  or holds nothing but characters of \<open>str.isspace\<close>, \<open>generate\<close> yields the thinking
  fragment and then the contents the external model streams, yields no analyzing fragment,
  and sends the external model the chat request and nothing else: no skill is matched. This
  holds whatever the Unicode tables of the interpreter are.
\<close>

theorem skipped_matching_gives_plain_chat:
  assumes "\<not> enable_skills request \<or> messages request = [] \<or>
           list_all (isspace (unicode w)) (snd (last (messages request)))"
  shows "fragments (generate w table request) =
           Thinking #
           concat (map (\<lambda>c. case c of None \<Rightarrow> [] | Some s \<Rightarrow> if s = [] then [] else [Chunk s])
                       (fst (stream_model w
                          (ChatStream (messages request)
                             (case model request of None \<Rightarrow> ascii ''deepseek-chat''
                              | Some m \<Rightarrow> if m = [] then ascii ''deepseek-chat'' else m))))) \<and>
         Analyzing \<notin> set (fragments (generate w table request)) \<and>
         requests (generate w table request) =
           [ChatStream (messages request)
              (case model request of None \<Rightarrow> ascii ''deepseek-chat''
               | Some m \<Rightarrow> if m = [] then ascii ''deepseek-chat'' else m)]"
proof -
  have run: "generate w table request = plain_chat w request (messages request) [] []"
  proof (cases "messages request = []")
    case True
    then show ?thesis by (simp add: generate_def Let_def strip_def)
  next
    case False
    with assms show ?thesis by (auto simp add: generate_def Let_def strip_blank)
  qed
  show ?thesis
    unfolding run
    by (auto simp: plain_chat_def Let_def split_beta split: option.splits if_splits)
qed

theorem skipped_matching_gives_plain_chat_witness:
  "list_all (isspace (unicode sample_world))
     (snd (last (messages \<lparr>messages = [(ascii ''user'', [0x3000, 0x20, 0xA0])], model = None,
                           stream = True, enable_skills = True\<rparr>))) \<and>
   fragments (generate sample_world
                [(ascii ''calculator'', sample_skill ''calculator'' ''math'' Calculator)]
                \<lparr>messages = [(ascii ''user'', [0x3000, 0x20, 0xA0])], model = None,
                 stream = True, enable_skills = True\<rparr>) =
     [Thinking, Chunk (ascii ''Hel''), Chunk (ascii ''lo'')] \<and>
   requests (generate sample_world
                [(ascii ''calculator'', sample_skill ''calculator'' ''math'' Calculator)]
                \<lparr>messages = [(ascii ''user'', [0x3000, 0x20, 0xA0])], model = None,
                 stream = True, enable_skills = True\<rparr>) =
     [ChatStream [(ascii ''user'', [0x3000, 0x20, 0xA0])] (ascii ''deepseek-chat'')]"
proof -
  let ?request = "\<lparr>messages = [(ascii ''user'', [0x3000, 0x20, 0xA0])], model = None,
                   stream = True, enable_skills = True\<rparr>"
  let ?table = "[(ascii ''calculator'', sample_skill ''calculator'' ''math'' Calculator)]"
  have blank: "list_all (isspace (unicode sample_world)) (snd (last (messages ?request)))"
    by code_simp
  then have skip: "\<not> enable_skills ?request \<or> messages ?request = [] \<or>
      list_all (isspace (unicode sample_world)) (snd (last (messages ?request)))"
    by blast
  have chunks: "fst (stream_model sample_world
        (ChatStream [(ascii ''user'', [0x3000, 0x20, 0xA0])] (ascii ''deepseek-chat''))) =
      [Some (ascii ''Hel''), None, Some [], Some (ascii ''lo'')]"
    by (simp add: sample_world_def)
  have nonempty: "ascii ''Hel'' \<noteq> [] \<and> ascii ''lo'' \<noteq> []"
    by (simp add: ascii_def)
  from skipped_matching_gives_plain_chat [OF skip, of ?table]
  have "fragments (generate sample_world ?table ?request) =
          [Thinking, Chunk (ascii ''Hel''), Chunk (ascii ''lo'')] \<and>
        requests (generate sample_world ?table ?request) =
          [ChatStream [(ascii ''user'', [0x3000, 0x20, 0xA0])] (ascii ''deepseek-chat'')]"
    using nonempty by (simp add: chunks)
  with blank show ?thesis by (intro conjI) blast+
qed





section \<open>The registry\<close>



lemma map_of_dict_set: "map_of (dict_set m k v) = (map_of m)(k \<mapsto> v)"
  by (induction m) (auto simp: fun_eq_iff)








lemma loading_states_prefix:
  "s \<in> set (loading_states es t) \<Longrightarrow> \<exists>k\<le>length es. s = fst (load_all (take k es) t)"
proof (induction es arbitrary: t)
  case Nil
  then show ?case by simp
next
  case (Cons e es)
  obtain t1 err where step: "load_entry e t = (t1, err)" by (cases "load_entry e t")
  have one: "t1 = fst (load_all (take 1 (e # es)) t)"
    using step by (cases err) simp_all
  show ?case
  proof (cases err)
    case (Some ex)
    with step Cons.prems have "s = t1" by simp
    with one show ?thesis by (intro exI[of _ 1]) simp
  next
    case None
    with step Cons.prems have "s = t1 \<or> s \<in> set (loading_states es t1)" by simp
    then show ?thesis
    proof
      assume "s = t1"
      with one show ?thesis by (intro exI[of _ 1]) simp
    next
      assume "s \<in> set (loading_states es t1)"
      from Cons.IH[OF this] obtain k where k: "k \<le> length es" "s = fst (load_all (take k es) t1)"
        by blast
      have "fst (load_all (take (Suc k) (e # es)) t) = fst (load_all (take k es) t1)"
        using step None by simp
      with k show ?thesis by (intro exI[of _ "Suc k"]) simp
    qed
  qed
qed

lemma loading_states_last:
  "last (t # loading_states es t) = fst (load_all es t)"
proof (induction es arbitrary: t)
  case Nil
  then show ?case by simp
next
  case (Cons e es)
  obtain t1 err where step: "load_entry e t = (t1, err)" by (cases "load_entry e t")
  show ?case
  proof (cases err)
    case (Some ex)
    with step show ?thesis by simp
  next
    case None
    with step Cons.IH[of t1] show ?thesis by simp
  qed
qed

text \<open>
  C8. \<open>reload\<close> works on the table in place: the table is emptied first, then refilled one
  entry of the skills directory after the other. Each content the table has after the call
  began is the table that the first \<open>k\<close> entries give when loaded into an empty table; the
  last one is the table \<open>reload\<close> leaves, which is what loading all entries into an empty
  table gives and holds nothing of the table before the call.
\<close>

theorem reload_refills_in_place:
  "reload_states entries old ! 0 = old \<and>
   reload_states entries old ! 1 = [] \<and>
   (\<forall>s\<in>set (tl (reload_states entries old)).
      \<exists>k\<le>length entries. s = fst (load_all (take k entries) [])) \<and>
   last (reload_states entries old) = fst (reload entries old) \<and>
   reload entries old = load_all entries []"
proof -
  have states: "\<forall>s\<in>set (tl (reload_states entries old)).
      \<exists>k\<le>length entries. s = fst (load_all (take k entries) [])"
  proof
    fix s assume "s \<in> set (tl (reload_states entries old))"
    then have "s = [] \<or> s \<in> set (loading_states entries [])"
      by (simp add: reload_states_def)
    then show "\<exists>k\<le>length entries. s = fst (load_all (take k entries) [])"
    proof
      assume "s = []"
      then show ?thesis by (intro exI[of _ 0]) simp
    next
      assume "s \<in> set (loading_states entries [])"
      then show ?thesis by (rule loading_states_prefix)
    qed
  qed
  have final: "last (reload_states entries old) = fst (reload entries old)"
    using loading_states_last[of "[]" entries] by (simp add: reload_states_def reload_def)
  from states final show ?thesis by (simp add: reload_states_def reload_def)
qed

theorem reload_refills_in_place_witness:
  "last (reload_states [sample_entry ''a'' (sample_skill ''calc'' ''run code'' Dynamic),
                        sample_entry ''b'' (sample_skill ''math'' ''run code'' Dynamic)]
           [(ascii ''calc'', sample_skill ''calc'' ''run code'' Dynamic),
            (ascii ''math'', sample_skill ''math'' ''run code'' Dynamic)]) =
     [(ascii ''calc'', sample_skill ''calc'' ''run code'' Dynamic),
      (ascii ''math'', sample_skill ''math'' ''run code'' Dynamic)] \<and>
   reload_states [sample_entry ''a'' (sample_skill ''calc'' ''run code'' Dynamic),
                  sample_entry ''b'' (sample_skill ''math'' ''run code'' Dynamic)]
     [(ascii ''calc'', sample_skill ''calc'' ''run code'' Dynamic),
      (ascii ''math'', sample_skill ''math'' ''run code'' Dynamic)] ! 1 = [] \<and>
   [(ascii ''calc'', sample_skill ''calc'' ''run code'' Dynamic)] \<in>
     set (tl (reload_states [sample_entry ''a'' (sample_skill ''calc'' ''run code'' Dynamic),
                             sample_entry ''b'' (sample_skill ''math'' ''run code'' Dynamic)]
                [(ascii ''calc'', sample_skill ''calc'' ''run code'' Dynamic),
                 (ascii ''math'', sample_skill ''math'' ''run code'' Dynamic)])) \<and>
   (\<exists>k\<le>length [sample_entry ''a'' (sample_skill ''calc'' ''run code'' Dynamic),
                sample_entry ''b'' (sample_skill ''math'' ''run code'' Dynamic)].
      [(ascii ''calc'', sample_skill ''calc'' ''run code'' Dynamic)] =
        fst (load_all (take k [sample_entry ''a'' (sample_skill ''calc'' ''run code'' Dynamic),
                               sample_entry ''b'' (sample_skill ''math'' ''run code'' Dynamic)])
               []))"
proof -
  let ?A = "sample_skill ''calc'' ''run code'' Dynamic"
  let ?B = "sample_skill ''math'' ''run code'' Dynamic"
  let ?es = "[sample_entry ''a'' ?A, sample_entry ''b'' ?B]"
  let ?old = "[(ascii ''calc'', ?A), (ascii ''math'', ?B)]"
  have result: "fst (reload ?es ?old) = ?old"
    by code_simp
  have seen: "[(ascii ''calc'', ?A)] \<in> set (tl (reload_states ?es ?old))"
    by code_simp
  note inst = reload_refills_in_place [of ?es ?old]
  from inst result have final: "last (reload_states ?es ?old) = ?old"
    by simp
  from inst have cleared: "reload_states ?es ?old ! 1 = []"
    by blast
  from inst seen have prefix:
    "\<exists>k\<le>length ?es. [(ascii ''calc'', ?A)] = fst (load_all (take k ?es) [])"
    by blast
  from final cleared seen prefix show ?thesis by blast
qed

text \<open>
  Reloading a directory of two skills into the table that already holds them: between the
  table before and the table after, the table is empty, and then holds one skill.
\<close>

theorem reload_passes_through_partial_tables:
  "reload_states [sample_entry ''a'' (sample_skill ''calc'' ''run code'' Dynamic),
                  sample_entry ''b'' (sample_skill ''math'' ''run code'' Dynamic)]
     [(ascii ''calc'', sample_skill ''calc'' ''run code'' Dynamic),
      (ascii ''math'', sample_skill ''math'' ''run code'' Dynamic)] =
     [[(ascii ''calc'', sample_skill ''calc'' ''run code'' Dynamic),
       (ascii ''math'', sample_skill ''math'' ''run code'' Dynamic)],
      [],
      [(ascii ''calc'', sample_skill ''calc'' ''run code'' Dynamic)],
      [(ascii ''calc'', sample_skill ''calc'' ''run code'' Dynamic),
       (ascii ''math'', sample_skill ''math'' ''run code'' Dynamic)]] \<and>
   fst (reload [sample_entry ''a'' (sample_skill ''calc'' ''run code'' Dynamic),
                sample_entry ''b'' (sample_skill ''math'' ''run code'' Dynamic)]
          [(ascii ''calc'', sample_skill ''calc'' ''run code'' Dynamic),
           (ascii ''math'', sample_skill ''math'' ''run code'' Dynamic)]) =
     [(ascii ''calc'', sample_skill ''calc'' ''run code'' Dynamic),
      (ascii ''math'', sample_skill ''math'' ''run code'' Dynamic)] \<and>
   [] \<noteq> [(ascii ''calc'', sample_skill ''calc'' ''run code'' Dynamic),
          (ascii ''math'', sample_skill ''math'' ''run code'' Dynamic)] \<and>
   [(ascii ''calc'', sample_skill ''calc'' ''run code'' Dynamic)] \<noteq>
     [(ascii ''calc'', sample_skill ''calc'' ''run code'' Dynamic),
      (ascii ''math'', sample_skill ''math'' ''run code'' Dynamic)]"
  by code_simp





section \<open>Reference documents\<close>

lemma store_references_returns:
  "(\<exists>r. store_references ps refs = Returns r) \<longleftrightarrow>
   (\<forall>rel x. (rel, x) \<in> set ps \<longrightarrow> (\<exists>doc. x = File (Returns doc)))"
proof (induction ps refs rule: store_references.induct)
  case (1 refs)
  then show ?case by simp
next
  case (2 rel entries rest refs)
  then show ?case by auto
next
  case (3 rel ex rest refs)
  then show ?case by auto
next
  case (4 rel doc rest refs)
  then show ?case by auto
qed

lemma store_references_origin:
  "store_references ps refs = Returns r \<Longrightarrow> map_of r k = Some t \<Longrightarrow>
   map_of refs k = Some t \<or> (\<exists>rel. (rel, File (Returns t)) \<in> set ps \<and> path_str rel = k)"
proof (induction ps refs rule: store_references.induct)
  case (4 rel doc rest refs)
  from "4.prems" have rest: "store_references rest (dict_set refs (path_str rel) doc) = Returns r"
    by simp
  from "4.IH"[OF rest "4.prems"(2)]
  show ?case by (auto simp: map_of_dict_set split: if_splits)
qed simp_all

lemma store_references_keeps:
  "store_references ps refs = Returns r \<Longrightarrow> map_of refs k \<noteq> None \<Longrightarrow> map_of r k \<noteq> None"
proof (induction ps refs rule: store_references.induct)
  case (4 rel doc rest refs)
  from "4.prems" have rest: "store_references rest (dict_set refs (path_str rel) doc) = Returns r"
    by simp
  from "4.prems"(2) have "map_of (dict_set refs (path_str rel) doc) k \<noteq> None"
    by (simp add: map_of_dict_set)
  from "4.IH"[OF rest this] show ?case .
qed simp_all

lemma store_references_stores:
  "store_references ps refs = Returns r \<Longrightarrow> (rel, x) \<in> set ps \<Longrightarrow>
   map_of r (path_str rel) \<noteq> None"
proof (induction ps refs rule: store_references.induct)
  case (4 rel' doc rest refs)
  from "4.prems" have rest: "store_references rest (dict_set refs (path_str rel') doc) = Returns r"
    by simp
  from "4.prems"(2) have "(rel, x) = (rel', File (Returns doc)) \<or> (rel, x) \<in> set rest" by simp
  then show ?case
  proof
    assume "(rel, x) = (rel', File (Returns doc))"
    then have "map_of (dict_set refs (path_str rel') doc) (path_str rel) \<noteq> None"
      by (simp add: map_of_dict_set)
    from store_references_keeps[OF rest this] show ?thesis .
  next
    assume "(rel, x) \<in> set rest"
    from "4.IH"[OF rest this] show ?thesis .
  qed
qed simp_all

lemma wf_entry:
  "wf_node (Dir entries) \<Longrightarrow> map_of entries n = Some y \<Longrightarrow>
   slash \<notin> set n \<and> wf_node y \<and> (n, y) \<in> set entries"
  by (auto simp: list_all_iff dest: map_of_SomeD)

lemma wf_lookup:
  "wf_node (Dir entries) \<Longrightarrow> (n, y) \<in> set entries \<Longrightarrow> map_of entries n = Some y"
  by simp

lemma lookup_path_components:
  "wf_node d \<Longrightarrow> lookup_path d q = Some x \<Longrightarrow> \<forall>n\<in>set q. slash \<notin> set n"
proof (induction d q rule: lookup_path.induct)
  case (3 entries n ns)
  from "3.prems"(2) obtain y where y: "map_of entries n = Some y" and rest: "lookup_path y ns = Some x"
    by (auto split: option.splits)
  from wf_entry[OF "3.prems"(1) y] have "slash \<notin> set n" "wf_node y" by simp_all
  with "3.IH"[OF y _ rest] show ?case by simp
qed simp_all

lemma glob_md_sound:
  "wf_node d \<Longrightarrow> (p, x) \<in> set (glob_md rel d) \<Longrightarrow>
   \<exists>q. p = rel @ q \<and> q \<noteq> [] \<and> lookup_path d q = Some x \<and> ends_with (last q) (ascii ''.md'')"
proof (induction rel d arbitrary: p x rule: glob_md.induct)
  case (1 rel t)
  then show ?case by simp
next
  case (2 rel entries)
  from "2.prems"(2) consider
    (here) n where "(n, x) \<in> set entries" "ends_with n (ascii ''.md'')" "p = rel @ [n]"
  | (below) n y where "(n, y) \<in> set entries" "(p, x) \<in> set (glob_md (rel @ [n]) y)"
    by auto
  then show ?case
  proof cases
    case here
    from wf_lookup[OF "2.prems"(1) here(1)] have "lookup_path (Dir entries) [n] = Some x" by simp
    with here show ?thesis by (intro exI[of _ "[n]"]) simp
  next
    case below
    from wf_lookup[OF "2.prems"(1) below(1)] have m: "map_of entries n = Some y" .
    from wf_entry[OF "2.prems"(1) m] have wfy: "wf_node y" by simp
    from "2.IH"[of "(n, y)" p x] below wfy obtain q where
      q: "p = (rel @ [n]) @ q" "q \<noteq> []" "lookup_path y q = Some x"
         "ends_with (last q) (ascii ''.md'')"
      by auto
    from q m have "lookup_path (Dir entries) (n # q) = Some x" by simp
    with q show ?thesis by (intro exI[of _ "n # q"]) simp
  qed
qed

lemma glob_md_complete:
  "wf_node d \<Longrightarrow> q \<noteq> [] \<Longrightarrow> lookup_path d q = Some x \<Longrightarrow>
   ends_with (last q) (ascii ''.md'') \<Longrightarrow> (rel @ q, x) \<in> set (glob_md rel d)"
proof (induction d q arbitrary: rel rule: lookup_path.induct)
  case (3 entries n ns)
  from "3.prems"(3) obtain y where y: "map_of entries n = Some y" and rest: "lookup_path y ns = Some x"
    by (auto split: option.splits)
  from wf_entry[OF "3.prems"(1) y] have wfy: "wf_node y" and mem: "(n, y) \<in> set entries"
    by simp_all
  show ?case
  proof (cases ns)
    case Nil
    with rest "3.prems"(4) mem have "(n, x) \<in> set entries" "ends_with n (ascii ''.md'')"
      by simp_all
    then show ?thesis using Nil by force
  next
    case (Cons m ms)
    with "3.prems"(4) have "ends_with (last ns) (ascii ''.md'')" by simp
    from "3.IH"[OF y wfy _ rest this, of "rel @ [n]"] Cons
    have "(rel @ n # ns, x) \<in> set (glob_md (rel @ [n]) y)" by simp
    with mem show ?thesis by force
  qed
qed simp_all

lemma split_at_separator:
  "a @ c # r = a' @ c # r' \<Longrightarrow> c \<notin> set a \<Longrightarrow> c \<notin> set a' \<Longrightarrow> a = a' \<and> r = r'"
proof (induction a arbitrary: a')
  case Nil
  then show ?case by (cases a') auto
next
  case (Cons h a)
  then show ?case by (cases a') auto
qed

lemma path_str_inj:
  "p \<noteq> [] \<Longrightarrow> q \<noteq> [] \<Longrightarrow> \<forall>n\<in>set p. slash \<notin> set n \<Longrightarrow> \<forall>n\<in>set q. slash \<notin> set n \<Longrightarrow>
   path_str p = path_str q \<Longrightarrow> p = q"
proof (induction p arbitrary: q rule: path_str.induct)
  case 1
  then show ?case by simp
next
  case (2 n)
  show ?case
  proof (cases q rule: path_str.cases)
    case 1
    with "2.prems" show ?thesis by simp
  next
    case (2 n')
    with "2.prems" show ?thesis by simp
  next
    case (3 n' m' ns')
    with "2.prems"(5) have "n = n' @ slash # path_str (m' # ns')" by simp
    with "2.prems"(3) show ?thesis by auto
  qed
next
  case (3 n m ns)
  show ?case
  proof (cases q rule: path_str.cases)
    case 1
    with "3.prems" show ?thesis by simp
  next
    case (2 n')
    with "3.prems"(5) have "n' = n @ slash # path_str (m # ns)" by simp
    with "3.prems"(4) 2 show ?thesis by auto
  next
    case q: (3 n' m' ns')
    with "3.prems"(5) have eq: "n @ slash # path_str (m # ns) = n' @ slash # path_str (m' # ns')"
      by simp
    from "3.prems"(3) have a: "slash \<notin> set n" by simp
    from "3.prems"(4) q have b: "slash \<notin> set n'" by simp
    from split_at_separator[OF eq a b] have nn: "n = n'" and rr: "path_str (m # ns) = path_str (m' # ns')"
      by simp_all
    from "3.IH"[of "m' # ns'"] "3.prems"(3,4) q rr have "m # ns = m' # ns'" by simp
    with nn q show ?thesis by simp
  qed
qed

text \<open>
  C7. \<open>_load_references\<close> on a skill directory returns exactly when every path below
  \<open>references\<close>, at any depth, whose name ends in \<open>.md\<close> is a file that can be read; a
  directory of such a name, or a file that cannot be read, makes it raise. When it returns,
  it has stored every file below \<open>references\<close> whose name ends in \<open>.md\<close>, under its path
  relative to \<open>references\<close>, with the text read from it; and it has stored nothing else.
\<close>

theorem markdown_references_are_stored:
  assumes "wf_node (Dir skill_dir)"
  shows "((\<exists>refs. load_references skill_dir = Returns refs) \<longleftrightarrow>
            (\<forall>rel x. rel \<noteq> [] \<and> ends_with (last rel) (ascii ''.md'') \<and>
                lookup_path (Dir skill_dir) (ascii ''references'' # rel) = Some x \<longrightarrow>
                (\<exists>doc. x = File (Returns doc)))) \<and>
         (\<forall>refs. load_references skill_dir = Returns refs \<longrightarrow>
            (\<forall>rel doc. rel \<noteq> [] \<and> ends_with (last rel) (ascii ''.md'') \<and>
                lookup_path (Dir skill_dir) (ascii ''references'' # rel) =
                  Some (File (Returns doc)) \<longrightarrow>
                map_of refs (path_str rel) = Some doc) \<and>
            (\<forall>k doc. map_of refs k = Some doc \<longrightarrow>
                (\<exists>rel. rel \<noteq> [] \<and> ends_with (last rel) (ascii ''.md'') \<and> k = path_str rel \<and>
                   lookup_path (Dir skill_dir) (ascii ''references'' # rel) =
                     Some (File (Returns doc)))))"
proof (cases "map_of skill_dir (ascii ''references'')")
  case None
  then have loaded: "load_references skill_dir = Returns []"
    by (simp add: load_references_def)
  from None have look: "\<And>rel. lookup_path (Dir skill_dir) (ascii ''references'' # rel) = None"
    by simp
  show ?thesis unfolding loaded look by simp
next
  case (Some rd)
  from wf_entry[OF assms Some] have wfr: "wf_node rd" by simp
  have loaded: "load_references skill_dir = store_references (glob_md [] rd) []"
    using Some by (simp add: load_references_def)
  have look: "\<And>rel. lookup_path (Dir skill_dir) (ascii ''references'' # rel) = lookup_path rd rel"
    using Some by simp
  have returns: "(\<exists>refs. store_references (glob_md [] rd) [] = Returns refs) \<longleftrightarrow>
            (\<forall>rel x. rel \<noteq> [] \<and> ends_with (last rel) (ascii ''.md'') \<and>
                lookup_path rd rel = Some x \<longrightarrow> (\<exists>doc. x = File (Returns doc)))"
  proof
    assume "\<exists>refs. store_references (glob_md [] rd) [] = Returns refs"
    then have all: "\<forall>rel x. (rel, x) \<in> set (glob_md [] rd) \<longrightarrow> (\<exists>doc. x = File (Returns doc))"
      by (simp only: store_references_returns)
    show "\<forall>rel x. rel \<noteq> [] \<and> ends_with (last rel) (ascii ''.md'') \<and>
                lookup_path rd rel = Some x \<longrightarrow> (\<exists>doc. x = File (Returns doc))"
    proof (intro allI impI)
      fix rel x
      assume a: "rel \<noteq> [] \<and> ends_with (last rel) (ascii ''.md'') \<and> lookup_path rd rel = Some x"
      from glob_md_complete[OF wfr, of rel x "[]"] a
      have "(rel, x) \<in> set (glob_md [] rd)" by simp
      with all show "\<exists>doc. x = File (Returns doc)" by blast
    qed
  next
    assume all: "\<forall>rel x. rel \<noteq> [] \<and> ends_with (last rel) (ascii ''.md'') \<and>
                lookup_path rd rel = Some x \<longrightarrow> (\<exists>doc. x = File (Returns doc))"
    have "\<forall>rel x. (rel, x) \<in> set (glob_md [] rd) \<longrightarrow> (\<exists>doc. x = File (Returns doc))"
    proof (intro allI impI)
      fix rel x assume "(rel, x) \<in> set (glob_md [] rd)"
      from glob_md_sound[OF wfr this] all show "\<exists>doc. x = File (Returns doc)" by auto
    qed
    then show "\<exists>refs. store_references (glob_md [] rd) [] = Returns refs"
      by (simp only: store_references_returns)
  qed
  have exact: "(\<forall>rel doc. rel \<noteq> [] \<and> ends_with (last rel) (ascii ''.md'') \<and>
                lookup_path rd rel = Some (File (Returns doc)) \<longrightarrow>
                map_of refs (path_str rel) = Some doc) \<and>
            (\<forall>k doc. map_of refs k = Some doc \<longrightarrow>
                (\<exists>rel. rel \<noteq> [] \<and> ends_with (last rel) (ascii ''.md'') \<and> k = path_str rel \<and>
                   lookup_path rd rel = Some (File (Returns doc))))"
    if stored: "store_references (glob_md [] rd) [] = Returns refs" for refs
  proof -
    have origin: "\<And>k doc. map_of refs k = Some doc \<Longrightarrow>
        \<exists>rel. rel \<noteq> [] \<and> ends_with (last rel) (ascii ''.md'') \<and> k = path_str rel \<and>
              lookup_path rd rel = Some (File (Returns doc))"
    proof -
      fix k doc assume "map_of refs k = Some doc"
      from store_references_origin[OF stored this] obtain rel where
        rel: "(rel, File (Returns doc)) \<in> set (glob_md [] rd)" "path_str rel = k"
        by auto
      from glob_md_sound[OF wfr rel(1)] rel(2)
      show "\<exists>rel. rel \<noteq> [] \<and> ends_with (last rel) (ascii ''.md'') \<and> k = path_str rel \<and>
              lookup_path rd rel = Some (File (Returns doc))"
        by auto
    qed
    have found: "\<And>rel doc. rel \<noteq> [] \<Longrightarrow> ends_with (last rel) (ascii ''.md'') \<Longrightarrow>
        lookup_path rd rel = Some (File (Returns doc)) \<Longrightarrow> map_of refs (path_str rel) = Some doc"
    proof -
      fix rel doc
      assume rel: "rel \<noteq> []" "ends_with (last rel) (ascii ''.md'')"
         and at: "lookup_path rd rel = Some (File (Returns doc))"
      from glob_md_complete[OF wfr rel(1) at rel(2), of "[]"]
      have "(rel, File (Returns doc)) \<in> set (glob_md [] rd)" by simp
      from store_references_stores[OF stored this] obtain doc' where
        doc': "map_of refs (path_str rel) = Some doc'" by auto
      from origin[OF doc'] obtain rel' where
        rel': "rel' \<noteq> []" "path_str rel = path_str rel'"
              "lookup_path rd rel' = Some (File (Returns doc'))"
        by auto
      from lookup_path_components[OF wfr at] lookup_path_components[OF wfr rel'(3)]
           path_str_inj[OF rel(1) rel'(1) _ _ rel'(2)]
      have "rel = rel'" by blast
      with at rel'(3) have "doc' = doc" by simp
      with doc' show "map_of refs (path_str rel) = Some doc" by simp
    qed
    from origin found show ?thesis by blast
  qed
  from returns exact show ?thesis unfolding loaded look by blast
qed

theorem markdown_references_are_stored_witness:
  "wf_node (Dir sample_skill_dir) \<and>
   load_references sample_skill_dir =
     Returns [(ascii ''guide.md'', ascii ''# Guide''),
              (ascii ''api/errors.md'', ascii ''# Errors'')] \<and>
   lookup_path (Dir sample_skill_dir) (ascii ''references'' # [ascii ''api'', ascii ''errors.md'']) =
     Some (File (Returns (ascii ''# Errors''))) \<and>
   map_of [(ascii ''guide.md'', ascii ''# Guide''), (ascii ''api/errors.md'', ascii ''# Errors'')]
     (path_str [ascii ''api'', ascii ''errors.md'']) = Some (ascii ''# Errors'') \<and>
   (\<exists>rel. rel \<noteq> [] \<and> ends_with (last rel) (ascii ''.md'') \<and>
      ascii ''guide.md'' = path_str rel \<and>
      lookup_path (Dir sample_skill_dir) (ascii ''references'' # rel) =
        Some (File (Returns (ascii ''# Guide''))))"
proof -
  let ?refs = "[(ascii ''guide.md'', ascii ''# Guide''),
                (ascii ''api/errors.md'', ascii ''# Errors'')]"
  have wf: "wf_node (Dir sample_skill_dir)"
    by code_simp
  have loaded: "load_references sample_skill_dir = Returns ?refs"
    by code_simp
  have at: "lookup_path (Dir sample_skill_dir)
              (ascii ''references'' # [ascii ''api'', ascii ''errors.md'']) =
     Some (File (Returns (ascii ''# Errors'')))"
    by code_simp
  have md: "[ascii ''api'', ascii ''errors.md''] \<noteq> [] \<and>
            ends_with (last [ascii ''api'', ascii ''errors.md'']) (ascii ''.md'')"
    by code_simp
  have key: "map_of ?refs (ascii ''guide.md'') = Some (ascii ''# Guide'')"
    by code_simp
  note inst = markdown_references_are_stored [OF wf]
  from inst loaded md at
  have stored: "map_of ?refs (path_str [ascii ''api'', ascii ''errors.md'']) =
                  Some (ascii ''# Errors'')"
    by blast
  from inst loaded key
  have origin: "\<exists>rel. rel \<noteq> [] \<and> ends_with (last rel) (ascii ''.md'') \<and>
      ascii ''guide.md'' = path_str rel \<and>
      lookup_path (Dir sample_skill_dir) (ascii ''references'' # rel) =
        Some (File (Returns (ascii ''# Guide'')))"
    by blast
  from wf loaded at stored origin show ?thesis by (intro conjI)
qed

text \<open>
  A file below \<open>references\<close> whose name does not end in \<open>.md\<close> is not stored. A directory
  whose name ends in \<open>.md\<close>, and a Markdown file that cannot be decoded, make
  \<open>_load_references\<close> raise.
\<close>

theorem other_files_are_not_stored:
  "load_references sample_skill_dir =
     Returns [(ascii ''guide.md'', ascii ''# Guide''),
              (ascii ''api/errors.md'', ascii ''# Errors'')] \<and>
   lookup_path (Dir sample_skill_dir) [ascii ''references'', ascii ''notes.txt''] =
     Some (File (Returns (ascii ''plain notes''))) \<and>
   load_references
     [(ascii ''references'',
       Dir [(ascii ''guide.md'', File (Returns (ascii ''# Guide''))),
            (ascii ''old.md'', Dir [])])] =
     Raises (ascii ''IsADirectoryError'') \<and>
   load_references
     [(ascii ''references'',
       Dir [(ascii ''guide.md'', File (Returns (ascii ''# Guide''))),
            (ascii ''scan.md'', File (Raises (ascii ''UnicodeDecodeError'')))])] =
     Raises (ascii ''UnicodeDecodeError'')"
  by code_simp

end
